theory Spec2Isabelle
  imports Main "HOL-Library.Word"
begin

section \<open>The benchmark driver: bench/cmd/bench/bench.go\<close>

text \<open>
  The driver is the \<^verbatim>\<open>run\<close> command of the benchmarker. Its \<^verbatim>\<open>Action\<close> calls the
  packages \<^verbatim>\<open>logger\<close>, \<^verbatim>\<open>isupipe\<close>, \<^verbatim>\<open>resolver\<close>, \<^verbatim>\<open>benchscore\<close>, \<^verbatim>\<open>bencherror\<close> and
  \<^verbatim>\<open>scenario\<close>, whose sources are not part of the files at hand. What those calls return is
  an input of the model (the record \<open>env\<close>); what the driver does with the values, and in
  which order it calls out, is the model itself. Every call that matters for the run's
  outcome is an \<open>event\<close> of the trace the model returns.
\<close>

subsection \<open>Strings and numbers\<close>

text \<open>
  A Go string is a sequence of bytes, and so is \<^typ>\<open>string\<close>. The Japanese literals of the
  source are written as their UTF-8 bytes. \<^verbatim>\<open>int64\<close> is \<^typ>\<open>64 word\<close>, read as a signed
  number by \<^const>\<open>sint\<close>.
\<close>

type_synonym int64 = "64 word"

type_synonym ScoreTag = string

text \<open>The verb \<^verbatim>\<open>%d\<close> of \<^verbatim>\<open>fmt\<close>: decimal digits, with a minus sign below zero.\<close>

fun digits :: "nat \<Rightarrow> string" where
  "digits n =
     (if n < 10 then [char_of (48 + n)]
      else digits (n div 10) @ [char_of (48 + n mod 10)])"

declare digits.simps [simp del]

definition fmt_d :: "int \<Rightarrow> string" where
  "fmt_d i = (if i < 0 then CHR ''-'' # digits (nat (- i)) else digits (nat i))"

text \<open>\<^verbatim>\<open>strings.HasSuffix(s, suffix)\<close>, as the Go library defines it.\<close>

definition HasSuffix :: "string \<Rightarrow> string \<Rightarrow> bool" where
  "HasSuffix s sfx \<longleftrightarrow>
     length s \<ge> length sfx \<and> drop (length s - length sfx) s = sfx"

subsection \<open>The result record and the messages\<close>

record BenchResult =
  Pass :: bool
  Score :: int64
  Messages :: "string list"
  Language :: string

text \<open>
  \<^verbatim>\<open>uniqueMsgs\<close> (lines 40 to 50): one pass over the messages with the map \<^verbatim>\<open>dedup\<close> of the
  messages seen so far; a message already in the map is skipped, any other is entered into
  the map and appended to the result.
\<close>

fun uniqueMsgs_loop ::
  "string list \<Rightarrow> (string \<rightharpoonup> unit) \<Rightarrow> string list \<Rightarrow> string list" where
  "uniqueMsgs_loop [] dedup uniqMsgs = uniqMsgs"
| "uniqueMsgs_loop (msg # msgs) dedup uniqMsgs =
     (case dedup msg of
        Some _ \<Rightarrow> uniqueMsgs_loop msgs dedup uniqMsgs
      | None \<Rightarrow> uniqueMsgs_loop msgs (dedup(msg \<mapsto> ())) (uniqMsgs @ [msg]))"

definition uniqueMsgs :: "string list \<Rightarrow> string list" where
  "uniqueMsgs msgs = uniqueMsgs_loop msgs Map.empty []"

text \<open>
  What the specification asks of the deduplication, in its own words: each text once, in
  the order in which the texts are first seen. \<open>dedupFirstSeen\<close> keeps the head and drops
  its later copies; \<open>firstIndex msgs m\<close> is the position at which \<open>m\<close> is first seen.
\<close>

fun dedupFirstSeen :: "string list \<Rightarrow> string list" where
  "dedupFirstSeen [] = []"
| "dedupFirstSeen (m # ms) = m # filter (\<lambda>x. x \<noteq> m) (dedupFirstSeen ms)"

fun firstIndex :: "string list \<Rightarrow> string \<Rightarrow> nat" where
  "firstIndex [] m = 0"
| "firstIndex (x # xs) m = (if x = m then 0 else Suc (firstIndex xs m))"

subsection \<open>The client's Initialize (package isupipe)\<close>

text \<open>
  A Go \<^verbatim>\<open>error\<close> is a value. \<open>External\<close> is an error handed up by a collaborator; the
  other constructors are the errors the source builds itself with \<^verbatim>\<open>fmt.Errorf\<close>, the wrapped
  error as the argument.
\<close>

datatype error =
    External string
  | InitializeRequestFailed error
  | InitializeStatusNot200
  | InitializeDecodeFailed error
  | InitializeFailed error

record InitializeResponse =
  resp_Language :: string

record http_response =
  StatusCode :: int
  Body :: string

text \<open>
  What the HTTP agent and the JSON decoder do for one call of \<^verbatim>\<open>Initialize\<close>:
  \<open>NewRequest_err\<close> is the error of \<^verbatim>\<open>c.agent.NewRequest\<close>, \<open>Do_result\<close> the outcome of
  \<^verbatim>\<open>c.agent.Do\<close>, and \<open>Decode body\<close> what \<^verbatim>\<open>json.NewDecoder(resp.Body).Decode\<close> leaves in
  the pointer \<^verbatim>\<open>initializeResp\<close> (\<open>None\<close> is \<^verbatim>\<open>nil\<close>) together with the error it returns.
\<close>

record agent =
  NewRequest_err :: "error option"
  Do_result :: "error + http_response"
  Decode :: "string \<Rightarrow> InitializeResponse option \<times> error option"

text \<open>
  \<^verbatim>\<open>Client.Initialize\<close> returns a pair of a pointer and an error, as Go does. After the
  status check the variable \<^verbatim>\<open>err\<close> still holds the \<^verbatim>\<open>nil\<close> error of \<^verbatim>\<open>Do\<close>; the statement
  \<^verbatim>\<open>if json.NewDecoder(resp.Body).Decode(&initializeResp); err != nil\<close> runs the decoder,
  drops the error it returns, and tests that \<^verbatim>\<open>err\<close>.
\<close>

definition Initialize :: "agent \<Rightarrow> InitializeResponse option \<times> error option" where
  "Initialize c =
     (case NewRequest_err c of
        Some err \<Rightarrow> (None, Some err)
      | None \<Rightarrow>
          (case Do_result c of
             Inl err \<Rightarrow> (None, Some (InitializeRequestFailed err))
           | Inr resp \<Rightarrow>
               (let err = (None :: error option) in
                if StatusCode resp \<noteq> 200 then (None, Some InitializeStatusNot200)
                else
                  (let (initializeResp, decodeErr) = Decode c (Body resp) in
                   case err of
                     Some e \<Rightarrow> (None, Some (InitializeDecodeFailed e))
                   | None \<Rightarrow> (initializeResp, None)))))"

subsection \<open>Configuration, collaborators and events\<close>

text \<open>The variables of package \<^verbatim>\<open>config\<close> that the driver reads or assigns.\<close>

record config =
  TargetBaseURL :: string
  HTTPScheme :: string
  TargetPort :: int
  InsecureSkipVerify :: bool
  BaseDomain :: string
  ResultPath :: string
  cfg_Language :: string

record DNSResolver =
  ResolveAttempts :: int

text \<open>
  The collaborators of one run. A field named after a function holds what that function
  returns in this run: an \<open>error option\<close> is the returned error (\<open>None\<close> is \<^verbatim>\<open>nil\<close>).
  \<open>NewDNSResolver\<close> is the resolver as \<^verbatim>\<open>resolver.NewDNSResolver()\<close> hands it out, with the
  package's default attempt count. Go ranges over a map in no fixed order, so the two maps
  the driver ranges over, \<open>GetFinalErrorMessages\<close> and \<open>ScenarioCounter\<close>, are association
  lists in the order of this run's iteration. \<open>TooSlow\<close>, \<open>TooManySpam\<close>, \<open>DNSResolve\<close> and
  \<open>DNSFailed\<close> are the tag constants of package \<^verbatim>\<open>benchscore\<close>; \<open>GetByTag\<close> and
  \<open>GetTotalProfit\<close> are what the registry answers at report time.
\<close>

record env =
  InitStaffLogger_err :: "error option"
  InitContestantLogger_err :: "error option"
  enableSSL :: bool
  pretestOnly :: bool
  NewClient_err :: "error option"
  initClient :: agent
  NewDNSResolver :: DNSResolver
  Pretest_err :: "error option"
  benchmarker_run_err :: "error option"
  FinalcheckScenario_err :: "error option"
  GetFinalErrorMessages :: "(string \<times> string list) list"
  ScenarioCounter :: "(ScoreTag \<times> int64) list"
  TooSlow :: ScoreTag
  TooManySpam :: ScoreTag
  DNSResolve :: ScoreTag
  DNSFailed :: ScoreTag
  GetByTag :: "ScoreTag \<Rightarrow> int64"
  GetTotalProfit :: int64
  Marshal_err :: "BenchResult \<Rightarrow> error option"
  WriteFile_err :: "error option"

text \<open>
  What goes to standard output: \<open>JsonOf r\<close> is the JSON text of the record \<open>r\<close>, and
  \<open>FailedLiteral s\<close> is the text \<^verbatim>\<open>{"pass": false, "score": 0, "messages": ["s"]}\<close> that
  \<^verbatim>\<open>dumpFailedResult\<close> prints when the record cannot be marshalled.
\<close>

datatype printed =
    JsonOf BenchResult
  | FailedLiteral string

text \<open>
  The three lines the staff log gets for an entry of the scenario counter (lines 249, 255
  and 257): so many failures of a failure tag; so many successes and failures of a scenario;
  so many executions of a scenario.
\<close>

datatype scenario_line =
    FailedScenario ScoreTag int64
  | SucceededAndFailed ScoreTag int64 int64
  | Executed ScoreTag int64

text \<open>
  The effects of a run, in the order of the source: the calls to the collaborators
  (\<open>CallPretest r\<close> is \<^verbatim>\<open>scenario.Pretest\<close> called with the resolver \<open>r\<close>), what
  \<^verbatim>\<open>fmt.Println\<close> and \<^verbatim>\<open>fmt.Printf\<close> put on standard output, and the call
  \<^verbatim>\<open>os.WriteFile(path, b, os.ModePerm)\<close> with \<open>b\<close> the JSON text of a record. The
  informational log lines that carry no data of the run are left out; the scenario lines
  of the staff log are kept.
\<close>

datatype event =
    CallNewClient string
  | CallInitialize
  | Println printed
  | CallInitCounter
  | CallInitErrors
  | CallPretest DNSResolver
  | CallBenchmarkerRun
  | CallDoneCounter
  | CallErrorsDone
  | CallFinalcheckScenario DNSResolver
  | CallGetFinalErrorMessages
  | CallScenarioCounter
  | StaffLog scenario_line
  | CallGetByTag ScoreTag
  | CallGetTotalProfit
  | WriteFile string BenchResult

text \<open>
  How the \<^verbatim>\<open>Action\<close> ends: it returns \<^verbatim>\<open>nil\<close>, it returns \<^verbatim>\<open>cli.NewExitError(err, code)\<close>,
  or it panics on \<^verbatim>\<open>initializeResp.Language\<close> (line 176) because the pointer is \<^verbatim>\<open>nil\<close>.
\<close>

datatype action_result =
    Return_nil
  | ExitError error int
  | Panic_nil_dereference

subsection \<open>The messages of the driver\<close>

text \<open>
  The message literals of lines 163, 173 and 191, and the two formats of lines 269 and 274
  (a Japanese label, then \<^verbatim>\<open>%d\<close>), as UTF-8 bytes.
\<close>

definition msg_client_failed :: string where
  "msg_client_failed =
   [CHR ''w'', CHR ''e'', CHR ''b'', CHR ''a'', CHR ''p'', CHR ''p'', CHR 0xE5, CHR 0x88,
    CHR 0x9D, CHR 0xE6, CHR 0x9C, CHR 0x9F, CHR 0xE5, CHR 0x8C, CHR 0x96, CHR 0xE3, CHR 0x82,
    CHR 0xAF, CHR 0xE3, CHR 0x83, CHR 0xA9, CHR 0xE3, CHR 0x82, CHR 0xA4, CHR 0xE3, CHR 0x82,
    CHR 0xA2, CHR 0xE3, CHR 0x83, CHR 0xB3, CHR 0xE3, CHR 0x83, CHR 0x88, CHR 0xE7, CHR 0x94,
    CHR 0x9F, CHR 0xE6, CHR 0x88, CHR 0x90, CHR 0xE3, CHR 0x81, CHR 0x8C, CHR 0xE5, CHR 0xA4,
    CHR 0xB1, CHR 0xE6, CHR 0x95, CHR 0x97, CHR 0xE3, CHR 0x81, CHR 0x97, CHR 0xE3, CHR 0x81,
    CHR 0xBE, CHR 0xE3, CHR 0x81, CHR 0x97, CHR 0xE3, CHR 0x81, CHR 0x9F]"

definition msg_initialize_failed :: string where
  "msg_initialize_failed =
   [CHR 0xE5, CHR 0x88, CHR 0x9D, CHR 0xE6, CHR 0x9C, CHR 0x9F, CHR 0xE5, CHR 0x8C, CHR 0x96,
    CHR 0xE3, CHR 0x81, CHR 0x8C, CHR 0xE5, CHR 0xA4, CHR 0xB1, CHR 0xE6, CHR 0x95, CHR 0x97,
    CHR 0xE3, CHR 0x81, CHR 0x97, CHR 0xE3, CHR 0x81, CHR 0xBE, CHR 0xE3, CHR 0x81, CHR 0x97,
    CHR 0xE3, CHR 0x81, CHR 0x9F]"

definition msg_pretest_failed :: string where
  "msg_pretest_failed =
   [CHR 0xE6, CHR 0x95, CHR 0xB4, CHR 0xE5, CHR 0x90, CHR 0x88, CHR 0xE6, CHR 0x80, CHR 0xA7,
    CHR 0xE3, CHR 0x83, CHR 0x81, CHR 0xE3, CHR 0x82, CHR 0xA7, CHR 0xE3, CHR 0x83, CHR 0x83,
    CHR 0xE3, CHR 0x82, CHR 0xAF, CHR 0xE3, CHR 0x81, CHR 0xAB, CHR 0xE5, CHR 0xA4, CHR 0xB1,
    CHR 0xE6, CHR 0x95, CHR 0x97, CHR 0xE3, CHR 0x81, CHR 0x97, CHR 0xE3, CHR 0x81, CHR 0xBE,
    CHR 0xE3, CHR 0x81, CHR 0x97, CHR 0xE3, CHR 0x81, CHR 0x9F]"

definition msg_resolves :: "int64 \<Rightarrow> string" where
  "msg_resolves numResolves =
   [CHR 0xE5, CHR 0x90, CHR 0x8D, CHR 0xE5, CHR 0x89, CHR 0x8D, CHR 0xE8, CHR 0xA7, CHR 0xA3,
    CHR 0xE6, CHR 0xB1, CHR 0xBA, CHR 0xE6, CHR 0x88, CHR 0x90, CHR 0xE5, CHR 0x8A, CHR 0x9F,
    CHR 0xE6, CHR 0x95, CHR 0xB0, CHR '' ''] @ fmt_d (sint numResolves)"

definition msg_profit :: "int64 \<Rightarrow> string" where
  "msg_profit profit =
   [CHR 0xE5, CHR 0xA3, CHR 0xB2, CHR 0xE4, CHR 0xB8, CHR 0x8A, CHR '':'', CHR '' '']
     @ fmt_d (sint profit)"

subsection \<open>The driver\<close>

text \<open>
  \<^verbatim>\<open>dumpFailedResult\<close> (lines 52 to 69) marshals a record with \<^verbatim>\<open>Pass: false\<close> and
  \<^verbatim>\<open>Score: 0\<close> and prints it on standard output; when marshalling fails it prints the
  literal instead, with the empty text of the \<^verbatim>\<open>nil\<close> byte slice in it.
\<close>

definition dumpFailedResult :: "env \<Rightarrow> config \<Rightarrow> string list \<Rightarrow> event list" where
  "dumpFailedResult e cfg msgs =
     (let r = \<lparr>Pass = False, Score = 0, Messages = msgs, Language = cfg_Language cfg\<rparr> in
      case Marshal_err e r of
        Some err \<Rightarrow> [Println (FailedLiteral [])]
      | None \<Rightarrow> [Println (JsonOf r)])"

text \<open>
  The body of the loop over the scenario counter (lines 247 to 259), for one entry
  \<open>(name, count)\<close> of the map: a name with the suffix \<^verbatim>\<open>-fail\<close> gets the failure line;
  any other name is looked up again with \<^verbatim>\<open>-fail\<close> appended. The keys of a Go map are
  distinct, so \<^const>\<open>map_of\<close> on the association list is the map's lookup.
\<close>

definition scenarioLine ::
  "(ScoreTag \<times> int64) list \<Rightarrow> ScoreTag \<times> int64 \<Rightarrow> scenario_line" where
  "scenarioLine scenarioCounter entry =
     (case entry of (name, count) \<Rightarrow>
        if HasSuffix name ''-fail'' then FailedScenario name count
        else
          (let failKey = name @ ''-fail'' in
           case map_of scenarioCounter failKey of
             Some failCount \<Rightarrow> SucceededAndFailed name count failCount
           | None \<Rightarrow> Executed name count))"

definition scenarioReport :: "(ScoreTag \<times> int64) list \<Rightarrow> scenario_line list" where
  "scenarioReport scenarioCounter = map (scenarioLine scenarioCounter) scenarioCounter"

text \<open>Sequencing: the events so far, then the rest of the run with its result.\<close>

definition then_do :: "event list \<Rightarrow> event list \<times> 'a \<Rightarrow> event list \<times> 'a" where
  "then_do es k = (es @ fst k, snd k)"

text \<open>
  The \<^verbatim>\<open>Action\<close> (lines 128 to 292), cut at its phases and read from the end. \<open>report\<close> is
  lines 233 to 291: the deduplicated error messages, the scenario lines, the counter reads,
  and the result record written to \<^verbatim>\<open>config.ResultPath\<close>.
\<close>

definition report :: "env \<Rightarrow> config \<Rightarrow> event list \<times> action_result" where
  "report e cfg =
     (let benchErrors = uniqueMsgs (concat (map snd (GetFinalErrorMessages e)));
          scenarioCounter = ScenarioCounter e;
          tooManySlows = GetByTag e (TooSlow e);
          tooManySpams = GetByTag e (TooManySpam e);
          numResolves = GetByTag e (DNSResolve e);
          numDNSFailed = GetByTag e (DNSFailed e);
          profit = GetTotalProfit e;
          msgs = [msg_resolves numResolves, msg_profit profit];
          r = \<lparr>Pass = True, Score = profit, Messages = benchErrors @ msgs,
               Language = cfg_Language cfg\<rparr>
      in
      then_do
        ([CallGetFinalErrorMessages, CallScenarioCounter]
         @ map StaffLog (scenarioReport scenarioCounter)
         @ [CallGetByTag (TooSlow e), CallGetByTag (TooManySpam e),
            CallGetByTag (DNSResolve e), CallGetByTag (DNSFailed e), CallGetTotalProfit])
        (case Marshal_err e r of
           Some err \<Rightarrow> ([], ExitError err 1)
         | None \<Rightarrow>
             (case WriteFile_err e of
                Some err \<Rightarrow> ([WriteFile (ResultPath cfg) r], ExitError err 1)
              | None \<Rightarrow> ([WriteFile (ResultPath cfg) r], Return_nil))))"

text \<open>
  Lines 221 to 232: the counters and the errors are closed, then the final check runs with
  a resolver of its own whose \<^verbatim>\<open>ResolveAttempts\<close> is set to 10.
\<close>

definition finalcheck :: "env \<Rightarrow> config \<Rightarrow> event list \<times> action_result" where
  "finalcheck e cfg =
     (let finalcheckDNSResolver = (NewDNSResolver e)\<lparr>ResolveAttempts := 10\<rparr> in
      then_do [CallDoneCounter, CallErrorsDone, CallFinalcheckScenario finalcheckDNSResolver]
        (case FinalcheckScenario_err e of
           Some err \<Rightarrow> (dumpFailedResult e cfg [], ExitError err 1)
         | None \<Rightarrow> report e cfg))"

text \<open>
  Lines 201 to 219: the counters and the errors are initialised again and the benchmarker
  runs. An error of \<^verbatim>\<open>benchmarker.run\<close> prints a failed result, and the run goes on.
\<close>

definition benchmark :: "env \<Rightarrow> config \<Rightarrow> event list \<times> action_result" where
  "benchmark e cfg =
     then_do [CallInitCounter, CallInitErrors, CallBenchmarkerRun]
       (then_do
          (case benchmarker_run_err e of
             Some err \<Rightarrow> dumpFailedResult e cfg []
           | None \<Rightarrow> [])
          (finalcheck e cfg))"

text \<open>
  Lines 178 to 199. The test \<^verbatim>\<open>err != nil\<close> of line 181 reads the error of \<^verbatim>\<open>Initialize\<close>,
  which is \<^verbatim>\<open>nil\<close> on this path, so its branch is never taken and has no part in the model.
\<close>

definition pretest :: "env \<Rightarrow> config \<Rightarrow> event list \<times> action_result" where
  "pretest e cfg =
     (let pretestDNSResolver = (NewDNSResolver e)\<lparr>ResolveAttempts := 10\<rparr> in
      then_do [CallInitCounter, CallInitErrors, CallPretest pretestDNSResolver]
        (case Pretest_err e of
           Some err \<Rightarrow> (dumpFailedResult e cfg [msg_pretest_failed], ExitError err 1)
         | None \<Rightarrow>
             if pretestOnly e then ([], Return_nil)
             else benchmark e cfg))"

text \<open>Lines 140 to 148: what \<^verbatim>\<open>--enable-ssl\<close> assigns.\<close>

definition applySSL :: "env \<Rightarrow> config \<Rightarrow> config" where
  "applySSL e cfg =
     (if enableSSL e then
        (let cfg1 = cfg\<lparr>HTTPScheme := ''https'', TargetPort := 443, InsecureSkipVerify := False\<rparr>
         in cfg1\<lparr>TargetBaseURL :=
              HTTPScheme cfg1 @ ''://pipe.'' @ BaseDomain cfg1 @ '':'' @ fmt_d (TargetPort cfg1)\<rparr>)
      else cfg)"

text \<open>Lines 129 to 176, and from there the phases above.\<close>

definition runAction :: "env \<Rightarrow> config \<Rightarrow> event list \<times> action_result" where
  "runAction e cfg0 =
     (case InitStaffLogger_err e of
        Some err \<Rightarrow> ([], ExitError err 1)
      | None \<Rightarrow>
     (case InitContestantLogger_err e of
        Some err \<Rightarrow> ([], ExitError err 1)
      | None \<Rightarrow>
     (let cfg = applySSL e cfg0 in
      then_do [CallNewClient (TargetBaseURL cfg)]
     (case NewClient_err e of
        Some err \<Rightarrow> (dumpFailedResult e cfg [msg_client_failed], ExitError err 1)
      | None \<Rightarrow>
      then_do [CallInitialize]
     (case Initialize (initClient e) of
        (_, Some err) \<Rightarrow>
          (dumpFailedResult e cfg [msg_initialize_failed], ExitError (InitializeFailed err) 1)
      | (None, None) \<Rightarrow> ([], Panic_nil_dereference)
      | (Some initializeResp, None) \<Rightarrow>
          pretest e (cfg\<lparr>cfg_Language := resp_Language initializeResp\<rparr>))))))"

subsection \<open>Reading a trace\<close>

text \<open>
  A printed result is a failure when it says \<^verbatim>\<open>pass: false\<close> and \<^verbatim>\<open>score: 0\<close>; the literal
  of \<^verbatim>\<open>dumpFailedResult\<close> says so in its text.
\<close>

definition pass_false_score_0 :: "printed \<Rightarrow> bool" where
  "pass_false_score_0 p =
     (case p of JsonOf r \<Rightarrow> \<not> Pass r \<and> Score r = 0 | FailedLiteral b \<Rightarrow> True)"

text \<open>The results printed on standard output, and those written to a file, in order.\<close>

fun printedOf :: "event list \<Rightarrow> printed list" where
  "printedOf [] = []"
| "printedOf (Println p # es) = p # printedOf es"
| "printedOf (ev # es) = printedOf es"

fun writtenOf :: "event list \<Rightarrow> (string \<times> BenchResult) list" where
  "writtenOf [] = []"
| "writtenOf (WriteFile path r # es) = (path, r) # writtenOf es"
| "writtenOf (ev # es) = writtenOf es"

text \<open>
  The reads of the counter registry that feed the report, and the check that each of them
  stands behind a \<^verbatim>\<open>DoneCounter\<close> with no \<^verbatim>\<open>InitCounter\<close> in between. The flag says whether
  the registry is closed at this point of the trace.
\<close>

fun counterRead :: "event \<Rightarrow> bool" where
  "counterRead (CallGetByTag t) = True"
| "counterRead CallGetTotalProfit = True"
| "counterRead CallScenarioCounter = True"
| "counterRead ev = False"

fun reads_after_Done :: "bool \<Rightarrow> event list \<Rightarrow> bool" where
  "reads_after_Done closed [] = True"
| "reads_after_Done closed (ev # es) =
     (if ev = CallDoneCounter then reads_after_Done True es
      else if ev = CallInitCounter then reads_after_Done False es
      else if counterRead ev then closed \<and> reads_after_Done closed es
      else reads_after_Done closed es)"

subsection \<open>The counter registry of the specification\<close>

text \<open>
  Modelled from the spec: the counter registry. Package \<^verbatim>\<open>benchscore\<close>, which holds the
  counters behind \<^verbatim>\<open>InitCounter\<close>, \<^verbatim>\<open>DoneCounter\<close>, \<^verbatim>\<open>GetByTag\<close> and \<^verbatim>\<open>GetTotalProfit\<close>, is
  not among the sources. The registry is a closed set of tags, a count per tag, a weight
  per revenue tag, the flag that \<^verbatim>\<open>Done()\<close> sets, and the number of late increments
  flagged as anomalies.
\<close>

record CounterRegistry =
  tags :: "ScoreTag list"
  weights :: "(ScoreTag \<times> int) list"
  counts :: "ScoreTag \<Rightarrow> int"
  frozen :: bool
  anomalies :: nat

text \<open>
  Modelled from the spec: \<^verbatim>\<open>Increment(tag, delta)\<close> of the registry in package
  \<^verbatim>\<open>benchscore\<close>, which is not among the sources. It adds \<open>delta\<close> to the count of a known
  tag; an unknown tag is rejected; after \<^verbatim>\<open>Done()\<close> the increment is discarded and flagged.
\<close>

definition reg_Increment :: "CounterRegistry \<Rightarrow> ScoreTag \<Rightarrow> int \<Rightarrow> CounterRegistry" where
  "reg_Increment reg tag delta =
     (if frozen reg then reg\<lparr>anomalies := anomalies reg + 1\<rparr>
      else if tag \<notin> set (tags reg) then reg
      else reg\<lparr>counts := (counts reg)(tag := counts reg tag + delta)\<rparr>)"

text \<open>
  Modelled from the spec: \<^verbatim>\<open>Done()\<close> of the registry in package \<^verbatim>\<open>benchscore\<close>, which is
  not among the sources. It stops the registry accepting increments.
\<close>

definition reg_Done :: "CounterRegistry \<Rightarrow> CounterRegistry" where
  "reg_Done reg = reg\<lparr>frozen := True\<rparr>"

text \<open>
  Modelled from the spec: \<^verbatim>\<open>GetByTag(tag)\<close> of the registry in package \<^verbatim>\<open>benchscore\<close>,
  which is not among the sources. It reads the count of a tag.
\<close>

definition reg_GetByTag :: "CounterRegistry \<Rightarrow> ScoreTag \<Rightarrow> int" where
  "reg_GetByTag reg tag = counts reg tag"

text \<open>
  Modelled from the spec: \<^verbatim>\<open>GetTotalProfit()\<close> of the registry in package \<^verbatim>\<open>benchscore\<close>,
  which is not among the sources. It is the sum of weight times count over the revenue tags.
\<close>

definition reg_GetTotalProfit :: "CounterRegistry \<Rightarrow> int" where
  "reg_GetTotalProfit reg = sum_list (map (\<lambda>(tag, w). w * counts reg tag) (weights reg))"

text \<open>Any sequence of increments, one after the other.\<close>

fun reg_Increments :: "CounterRegistry \<Rightarrow> (ScoreTag \<times> int) list \<Rightarrow> CounterRegistry" where
  "reg_Increments reg [] = reg"
| "reg_Increments reg ((tag, delta) # incs) = reg_Increments (reg_Increment reg tag delta) incs"

text \<open>A registry of one revenue tag of weight 10, open and at zero.\<close>

definition example_registry :: CounterRegistry where
  "example_registry =
     \<lparr>tags = [''tip''], weights = [(''tip'', 10)], counts = (\<lambda>tag. 0), frozen = False,
      anomalies = 0\<rparr>"

subsection \<open>The scenario report of the specification\<close>

text \<open>
  The specification's report, in its own words: every scenario registration carries its
  pair of a success tag and a failure tag, and the report finds the failure counterpart of a
  tag in the registered pairs. A tag that is the failure tag of a pair gets the failure
  line; a success tag is reported with the count of the failure tag of its pair.
\<close>

definition scenarioLineByPair ::
  "(ScoreTag \<times> ScoreTag) list \<Rightarrow> (ScoreTag \<times> int64) list \<Rightarrow> ScoreTag \<times> int64
     \<Rightarrow> scenario_line" where
  "scenarioLineByPair registered scenarioCounter entry =
     (case entry of (name, count) \<Rightarrow>
        if name \<in> set (map snd registered) then FailedScenario name count
        else
          (case map_of registered name of
             Some failTag \<Rightarrow>
               (case map_of scenarioCounter failTag of
                  Some failCount \<Rightarrow> SucceededAndFailed name count failCount
                | None \<Rightarrow> Executed name count)
           | None \<Rightarrow> Executed name count))"

definition scenarioReportByPair ::
  "(ScoreTag \<times> ScoreTag) list \<Rightarrow> (ScoreTag \<times> int64) list \<Rightarrow> scenario_line list" where
  "scenarioReportByPair registered scenarioCounter =
     map (scenarioLineByPair registered scenarioCounter) scenarioCounter"

text \<open>
  A registration follows the naming convention when the failure tag of every pair is the
  success tag with \<^verbatim>\<open>-fail\<close> appended, and no success tag ends in \<^verbatim>\<open>-fail\<close> itself.
\<close>

definition suffix_convention :: "(ScoreTag \<times> ScoreTag) list \<Rightarrow> bool" where
  "suffix_convention registered =
     list_all (\<lambda>(successTag, failTag).
        failTag = successTag @ ''-fail'' \<and> \<not> HasSuffix successTag ''-fail'') registered"

subsection \<open>A run to evaluate\<close>

text \<open>
  A run in which every collaborator succeeds: the target answers the initialisation with
  status 200 and the language \<^verbatim>\<open>go\<close>, the resolver's default is two attempts, two categories
  of errors were collected, three scenario tags were counted and the profit is 1000.
\<close>

definition example_agent :: agent where
  "example_agent =
     \<lparr>NewRequest_err = None,
      Do_result = Inr \<lparr>StatusCode = 200, Body = ''{\"language\":\"go\"}''\<rparr>,
      Decode = (\<lambda>body.
        if body = ''{\"language\":\"go\"}'' then (Some \<lparr>resp_Language = ''go''\<rparr>, None)
        else (None, Some (External ''invalid character'')))\<rparr>"

definition example_env :: env where
  "example_env =
     \<lparr>InitStaffLogger_err = None, InitContestantLogger_err = None,
      enableSSL = False, pretestOnly = False, NewClient_err = None,
      initClient = example_agent,
      NewDNSResolver = \<lparr>ResolveAttempts = 2\<rparr>,
      Pretest_err = None, benchmarker_run_err = None, FinalcheckScenario_err = None,
      GetFinalErrorMessages =
        [(''critical'', [''a'', ''b'', ''a'']), (''timeout'', [''c'', ''b''])],
      ScenarioCounter = [(''viewer'', 5), (''viewer-fail'', 2), (''streamer'', 3)],
      TooSlow = ''too-slow'', TooManySpam = ''too-many-spam'',
      DNSResolve = ''dns-resolve'', DNSFailed = ''dns-failed'',
      GetByTag = (\<lambda>tag. if tag = ''dns-resolve'' then 7 else 0),
      GetTotalProfit = 1000,
      Marshal_err = (\<lambda>r. None), WriteFile_err = None\<rparr>"

definition example_config :: config where
  "example_config =
     \<lparr>TargetBaseURL = ''http://pipe.u.isucon.dev:8080'', HTTPScheme = ''http'',
      TargetPort = 8080, InsecureSkipVerify = True, BaseDomain = ''u.isucon.dev'',
      ResultPath = ''/tmp/result.json'', cfg_Language = []\<rparr>"

text \<open>An agent whose response has status 200 and a body that is not JSON.\<close>

definition undecodable_agent :: agent where
  "undecodable_agent =
     \<lparr>NewRequest_err = None,
      Do_result = Inr \<lparr>StatusCode = 200, Body = ''<html>''\<rparr>,
      Decode = (\<lambda>body. (None, Some (External ''invalid character'')))\<rparr>"

text \<open>The events of a run and the way it ends.\<close>

definition trace :: "env \<Rightarrow> config \<Rightarrow> event list" where
  "trace e cfg = fst (runAction e cfg)"

definition outcome :: "env \<Rightarrow> config \<Rightarrow> action_result" where
  "outcome e cfg = snd (runAction e cfg)"

text \<open>The scenario lines of the staff log in a trace.\<close>

fun staffLogOf :: "event list \<Rightarrow> scenario_line list" where
  "staffLogOf [] = []"
| "staffLogOf (StaffLog l # es) = l # staffLogOf es"
| "staffLogOf (ev # es) = staffLogOf es"

text \<open>
  The run above with a failing pretest, with a failing final check, and with
  \<^verbatim>\<open>--pretest-only\<close>.
\<close>

definition pretest_failure_env :: env where
  "pretest_failure_env = example_env\<lparr>Pretest_err := Some (External ''pretest failed'')\<rparr>"

definition finalcheck_failure_env :: env where
  "finalcheck_failure_env =
     example_env\<lparr>FinalcheckScenario_err := Some (External ''finalcheck failed'')\<rparr>"

definition pretest_only_env :: env where
  "pretest_only_env = example_env\<lparr>pretestOnly := True\<rparr>"

text \<open>The run above where the default of \<^verbatim>\<open>resolver.NewDNSResolver()\<close> is 20 attempts.\<close>

definition high_default_env :: env where
  "high_default_env = example_env\<lparr>NewDNSResolver := \<lparr>ResolveAttempts = 20\<rparr>\<rparr>"

section \<open>The user handlers of the web application: webapp/php/src/User/Handler.php\<close>

text \<open>
  A handler takes the request and the response and works on the database through PDO. In
  the model a handler takes what it reads of the request, the response and the state of the
  database, and returns the response or the exception it throws, with the state it leaves.
  The traits \<^verbatim>\<open>FillUserResponse\<close> and \<^verbatim>\<open>VerifyUserSession\<close>, the class
  \<^verbatim>\<open>AbstractHandler\<close>, the request classes and the database schema are not among the
  sources; what they do in one call is a field of \<open>handler_env\<close>.
\<close>

subsection \<open>Exceptions, rows and the database\<close>

text \<open>
  The exceptions that leave a handler: the three of Slim that the handlers throw, with
  their message; whatever \<^verbatim>\<open>verifyUserSession\<close> throws; and a \<^verbatim>\<open>PDOException\<close> of
  \<^verbatim>\<open>beginTransaction\<close> or \<^verbatim>\<open>commit\<close>, which no handler catches.
\<close>

datatype http_exception =
    HttpBadRequestException string
  | HttpInternalServerErrorException string
  | HttpNotFoundException string
  | SessionException string
  | PDOException string

text \<open>The user as the response of the API shows it; its class is not among the sources.\<close>

typedecl User

record UserModel =
  user_id :: "int option"
  user_name :: string
  user_displayName :: string
  user_description :: string
  user_hashedPassword :: string

record ThemeModel =
  theme_userId :: int
  theme_darkMode :: bool

record PostUserRequest =
  req_name :: string
  req_displayName :: string
  req_description :: string
  req_password :: string
  req_theme_darkMode :: bool

text \<open>
  The tables the two handlers touch: the rows of \<^verbatim>\<open>users\<close> with the next value of their
  auto-increment key, the rows of \<^verbatim>\<open>themes\<close>, and the rows \<open>(user_id, image)\<close> of
  \<^verbatim>\<open>icons\<close>.
\<close>

record tables =
  users :: "UserModel list"
  users_auto_increment :: int
  themes :: "ThemeModel list"
  icons :: "(int \<times> string) list"

text \<open>
  The state a handler works on: the committed tables, the tables of the open transaction
  when there is one, and the commands run through \<^verbatim>\<open>execCommand\<close> (their effect is outside
  the database, and no rollback undoes it).
\<close>

record world =
  committed :: tables
  in_transaction :: "tables option"
  executed_commands :: "string list list"

record Response =
  status :: int
  headers :: "string \<rightharpoonup> string"
  body :: string

text \<open>
  What the collaborators do in one call of a handler. \<open>verifyUserSession\<close> is the exception
  the session check throws, if any. A field ending in \<open>_err\<close> is the message of the
  \<^verbatim>\<open>PDOException\<close> or \<^verbatim>\<open>RuntimeException\<close> of that statement, if it throws. \<open>FALLBACK_IMAGE\<close>
  is what \<^verbatim>\<open>file_get_contents\<close> returns for the file of that name (\<open>None\<close> is \<^verbatim>\<open>false\<close>),
  and \<open>fromJson\<close> is \<^verbatim>\<open>PostUserRequest::fromJson\<close> (\<open>None\<close> is its
  \<^verbatim>\<open>UnexpectedValueException\<close>).
\<close>

record handler_env =
  verifyUserSession :: "http_exception option"
  select_user_err :: "string option"
  select_icon_err :: "string option"
  FALLBACK_IMAGE :: "string option"
  fromJson :: "string \<Rightarrow> PostUserRequest option"
  password_hash :: "string \<Rightarrow> string"
  insert_user_err :: "string option"
  insert_theme_err :: "string option"
  powerDNSSubdomainAddress :: string
  execCommand_err :: "string option"
  fillUserResponse :: "UserModel \<Rightarrow> tables \<Rightarrow> User option"
  jsonResponse :: "Response \<Rightarrow> User \<Rightarrow> int \<Rightarrow> Response"

text \<open>The tables a statement sees: those of the open transaction, or the committed ones.\<close>

definition current :: "world \<Rightarrow> tables" where
  "current w = (case in_transaction w of Some t \<Rightarrow> t | None \<Rightarrow> committed w)"

definition beginTransaction :: "world \<Rightarrow> http_exception + world" where
  "beginTransaction w =
     (case in_transaction w of
        Some t \<Rightarrow> Inl (PDOException ''There is already an active transaction'')
      | None \<Rightarrow> Inr (w\<lparr>in_transaction := Some (committed w)\<rparr>))"

definition commit :: "world \<Rightarrow> http_exception + world" where
  "commit w =
     (case in_transaction w of
        None \<Rightarrow> Inl (PDOException ''There is no active transaction'')
      | Some t \<Rightarrow> Inr (w\<lparr>committed := t, in_transaction := None\<rparr>))"

definition write_tables :: "(tables \<Rightarrow> tables) \<Rightarrow> world \<Rightarrow> world" where
  "write_tables f w =
     (case in_transaction w of
        Some t \<Rightarrow> w\<lparr>in_transaction := Some (f t)\<rparr>
      | None \<Rightarrow> w\<lparr>committed := f (committed w)\<rparr>)"

text \<open>
  The strings that PHP takes for false, so that the operator \<^verbatim>\<open>?:\<close> goes to its right-hand
  side: the empty string and \<^verbatim>\<open>"0"\<close>.
\<close>

definition falsy :: "string \<Rightarrow> bool" where
  "falsy s \<longleftrightarrow> s = [] \<or> s = ''0''"

subsection \<open>getIconHandler\<close>

text \<open>
  Lines 39 to 90. The transaction the handler begins is left open. \<open>find\<close> is the first row
  of the \<^verbatim>\<open>SELECT\<close>, and \<open>None\<close> the \<^verbatim>\<open>false\<close> of \<^verbatim>\<open>fetch\<close> and \<^verbatim>\<open>fetchColumn\<close>.
\<close>

definition getIconHandler ::
  "handler_env \<Rightarrow> (string \<rightharpoonup> string) \<Rightarrow> Response \<Rightarrow> world
     \<Rightarrow> (http_exception + Response) \<times> world" where
  "getIconHandler E params response w =
     (let username = (case params ''username'' of Some u \<Rightarrow> u | None \<Rightarrow> []) in
      case verifyUserSession E of
        Some ex \<Rightarrow> (Inl ex, w)
      | None \<Rightarrow>
     (case beginTransaction w of
        Inl ex \<Rightarrow> (Inl ex, w)
      | Inr w1 \<Rightarrow>
     (case select_user_err E of
        Some e \<Rightarrow> (Inl (HttpInternalServerErrorException ''failed to get user''), w1)
      | None \<Rightarrow>
     (case find (\<lambda>row. user_name row = username) (users (current w1)) of
        None \<Rightarrow>
          (Inl (HttpNotFoundException ''not found user that has the given username''), w1)
      | Some user \<Rightarrow>
     (case select_icon_err E of
        Some e \<Rightarrow> (Inl (HttpInternalServerErrorException ''failed to get user icon''), w1)
      | None \<Rightarrow>
     (case find (\<lambda>row. Some (fst row) = user_id user) (icons (current w1)) of
        Some row \<Rightarrow>
          (Inr (response\<lparr>body := body response @ snd row,
                         headers := (headers response)(''Content-Type'' \<mapsto> ''image/jpeg'')\<rparr>),
           w1)
      | None \<Rightarrow>
          (case FALLBACK_IMAGE E of
             None \<Rightarrow>
               (Inl (HttpInternalServerErrorException ''failed to read fallback image''), w1)
           | Some img \<Rightarrow>
               if falsy img
               then (Inl (HttpInternalServerErrorException ''failed to read fallback image''), w1)
               else
                 (Inr (response\<lparr>body := body response @ img,
                                headers := (headers response)(''Content-Type'' \<mapsto> ''image/jpeg'')\<rparr>),
                  w1))))))))"

subsection \<open>registerHandler\<close>

text \<open>The message of line 208; it has the name between two apostrophes.\<close>

definition reserved_message :: string where
  "reserved_message = ''the username '' @ [CHR 0x27] @ ''pipe'' @ [CHR 0x27] @ '' is reserved''"

text \<open>
  Lines 193 to 280. The key of the new user is the table's next auto-increment value. The
  command that adds the DNS record is the list of its arguments.
\<close>

definition registerHandler ::
  "handler_env \<Rightarrow> string \<Rightarrow> Response \<Rightarrow> world \<Rightarrow> (http_exception + Response) \<times> world" where
  "registerHandler E request_body response w =
     (case fromJson E request_body of
        None \<Rightarrow>
          (Inl (HttpBadRequestException ''failed to decode the request body as json''), w)
      | Some req \<Rightarrow>
     if req_name req = ''pipe'' then (Inl (HttpBadRequestException reserved_message), w)
     else
     (let hashedPassword = password_hash E (req_password req) in
      case beginTransaction w of
        Inl ex \<Rightarrow> (Inl ex, w)
      | Inr w1 \<Rightarrow>
     (let userModel = \<lparr>user_id = None, user_name = req_name req,
                        user_displayName = req_displayName req,
                        user_description = req_description req,
                        user_hashedPassword = hashedPassword\<rparr> in
      case insert_user_err E of
        Some e \<Rightarrow> (Inl (HttpInternalServerErrorException ''failed to insert user''), w1)
      | None \<Rightarrow>
     (let userId = users_auto_increment (current w1);
          userModel = userModel\<lparr>user_id := Some userId\<rparr>;
          w2 = write_tables (\<lambda>t. t\<lparr>users := users t @ [userModel],
                                    users_auto_increment := userId + 1\<rparr>) w1;
          themeModel = \<lparr>theme_userId = userId, theme_darkMode = req_theme_darkMode req\<rparr> in
      case insert_theme_err E of
        Some e \<Rightarrow> (Inl (HttpInternalServerErrorException ''failed to insert user theme''), w2)
      | None \<Rightarrow>
     (let w3 = write_tables (\<lambda>t. t\<lparr>themes := themes t @ [themeModel]\<rparr>) w2 in
      case execCommand_err E of
        Some message \<Rightarrow> (Inl (HttpInternalServerErrorException message), w3)
      | None \<Rightarrow>
     (let w4 = w3\<lparr>executed_commands := executed_commands w3 @
                 [[''pdnsutil'', ''add-record'', ''u.isucon.dev'', req_name req, ''A'', ''30'',
                   powerDNSSubdomainAddress E]]\<rparr> in
      case fillUserResponse E userModel (current w4) of
        None \<Rightarrow> (Inl (HttpInternalServerErrorException ''failed to fill user''), w4)
      | Some user \<Rightarrow>
     (case commit w4 of
        Inl ex \<Rightarrow> (Inl ex, w4)
      | Inr w5 \<Rightarrow> (Inr (jsonResponse E response user 201), w5))))))))"

subsection \<open>A database and two requests to evaluate\<close>

text \<open>
  A database with the user \<^verbatim>\<open>alice\<close> (key 1) and the user \<^verbatim>\<open>bob\<close> (key 2), where only
  \<^verbatim>\<open>bob\<close> has an icon; collaborators that all succeed, with a fallback image of eight
  bytes; and two registrations, one whose name is \<^verbatim>\<open>pipe\<close> and one whose name is
  \<^verbatim>\<open>carol\<close>, as the JSON texts of their bodies and as \<^verbatim>\<open>fromJson\<close> decodes them.
\<close>

definition example_tables :: tables where
  "example_tables =
     \<lparr>users =
        [\<lparr>user_id = Some 1, user_name = ''alice'', user_displayName = ''Alice'',
          user_description = ''streamer'', user_hashedPassword = ''$2y$04$a''\<rparr>,
         \<lparr>user_id = Some 2, user_name = ''bob'', user_displayName = ''Bob'',
          user_description = ''viewer'', user_hashedPassword = ''$2y$04$b''\<rparr>],
      users_auto_increment = 3,
      themes = [\<lparr>theme_userId = 1, theme_darkMode = True\<rparr>,
                \<lparr>theme_userId = 2, theme_darkMode = False\<rparr>],
      icons = [(2, ''bob-icon'')]\<rparr>"

definition example_world :: world where
  "example_world =
     \<lparr>committed = example_tables, in_transaction = None, executed_commands = []\<rparr>"

definition example_response :: Response where
  "example_response = \<lparr>status = 200, headers = Map.empty, body = []\<rparr>"

definition pipe_request :: PostUserRequest where
  "pipe_request =
     \<lparr>req_name = ''pipe'', req_displayName = ''Pipe'', req_description = ''reserved'',
      req_password = ''secret'', req_theme_darkMode = True\<rparr>"

definition pipe_request_body :: string where
  "pipe_request_body =
     ''{\"name\":\"pipe\",\"display_name\":\"Pipe\",\"description\":\"reserved\",''
     @ ''\"password\":\"secret\",\"theme\":{\"dark_mode\":true}}''"

definition carol_request_body :: string where
  "carol_request_body =
     ''{\"name\":\"carol\",\"display_name\":\"Pipe\",\"description\":\"reserved\",''
     @ ''\"password\":\"secret\",\"theme\":{\"dark_mode\":true}}''"

definition example_handler_env :: handler_env where
  "example_handler_env =
     \<lparr>verifyUserSession = None, select_user_err = None, select_icon_err = None,
      FALLBACK_IMAGE = Some ''NoImage!'',
      fromJson = (\<lambda>request_body.
        if request_body = pipe_request_body then Some pipe_request
        else if request_body = carol_request_body
          then Some (pipe_request\<lparr>req_name := ''carol''\<rparr>)
        else None),
      password_hash = (\<lambda>password. ''$2y$04$'' @ password),
      insert_user_err = None, insert_theme_err = None,
      powerDNSSubdomainAddress = ''127.0.0.1'',
      execCommand_err = None,
      fillUserResponse = (\<lambda>userModel t. None),
      jsonResponse = (\<lambda>response user code. response\<lparr>status := code\<rparr>)\<rparr>"

section \<open>Properties of the benchmark driver\<close>

subsection \<open>Deduplication of the messages\<close>

lemma set_dedupFirstSeen: "set (dedupFirstSeen ms) = set ms"
  by (induction ms) auto

lemma distinct_dedupFirstSeen: "distinct (dedupFirstSeen ms)"
  by (induction ms) auto

lemma uniqueMsgs_loop_eq:
  "dom dedup = set uniqMsgs \<Longrightarrow>
   uniqueMsgs_loop msgs dedup uniqMsgs
     = uniqMsgs @ filter (\<lambda>x. x \<notin> set uniqMsgs) (dedupFirstSeen msgs)"
proof (induction msgs arbitrary: dedup uniqMsgs)
  case Nil
  then show ?case by simp
next
  case (Cons m ms)
  show ?case
  proof (cases "dedup m")
    case None
    then have nin: "m \<notin> set uniqMsgs" using Cons.prems by (metis domIff)
    have d: "dom (dedup(m \<mapsto> ())) = set (uniqMsgs @ [m])" using Cons.prems by auto
    have step: "uniqueMsgs_loop (m # ms) dedup uniqMsgs
                  = uniqueMsgs_loop ms (dedup(m \<mapsto> ())) (uniqMsgs @ [m])"
      using None by simp
    have "filter (\<lambda>x. x \<notin> set uniqMsgs) (dedupFirstSeen (m # ms))
            = m # filter (\<lambda>x. x \<notin> set (uniqMsgs @ [m])) (dedupFirstSeen ms)"
      using nin by (simp add: conj_commute)
    then show ?thesis unfolding step Cons.IH[OF d] by simp
  next
    case (Some u)
    then have inn: "m \<in> set uniqMsgs" using Cons.prems by (metis domI)
    have step: "uniqueMsgs_loop (m # ms) dedup uniqMsgs = uniqueMsgs_loop ms dedup uniqMsgs"
      using Some by simp
    have "filter (\<lambda>x. x \<notin> set uniqMsgs) (dedupFirstSeen (m # ms))
            = filter (\<lambda>x. x \<notin> set uniqMsgs) (dedupFirstSeen ms)"
      using inn by (auto intro: filter_cong)
    then show ?thesis unfolding step Cons.IH[OF Cons.prems] by simp
  qed
qed

lemma uniqueMsgs_dedupFirstSeen: "uniqueMsgs msgs = dedupFirstSeen msgs"
  by (simp add: uniqueMsgs_def uniqueMsgs_loop_eq)

lemma firstIndex_sorted:
  "sorted_wrt (<) (map (firstIndex ms) (dedupFirstSeen ms))"
proof (induction ms)
  case Nil
  then show ?case by simp
next
  case (Cons m ms)
  let ?rest = "filter (\<lambda>x. x \<noteq> m) (dedupFirstSeen ms)"
  have "map (firstIndex (m # ms)) ?rest = map (\<lambda>x. Suc (firstIndex ms x)) ?rest"
    by (rule map_cong) auto
  then have eq: "map (firstIndex (m # ms)) (dedupFirstSeen (m # ms))
                   = 0 # map (\<lambda>x. Suc (firstIndex ms x)) ?rest"
    by simp
  have "sorted_wrt (<) (map (firstIndex ms) ?rest)"
    using Cons.IH by (simp add: sorted_wrt_map sorted_wrt_filter)
  then have "sorted_wrt (<) (0 # map (\<lambda>x. Suc (firstIndex ms x)) ?rest)"
    by (simp add: sorted_wrt_map)
  then show ?case unfolding eq .
qed

text \<open>
  Claim C2. For every list of messages, \<open>uniqueMsgs\<close> removes duplicates by exact text and
  keeps the order in which the texts are first seen: the result has every text of the
  input and no other, each once, its texts stand in the order of their first positions in
  the input, and it is the list the specification's wording describes. On
  \<open>["a","b","a","c","b"]\<close> the result is \<open>["a","b","c"]\<close>.
\<close>

theorem C2_uniqueMsgs_first_seen:
  "set (uniqueMsgs msgs) = set msgs
   \<and> distinct (uniqueMsgs msgs)
   \<and> sorted_wrt (<) (map (firstIndex msgs) (uniqueMsgs msgs))
   \<and> uniqueMsgs msgs = dedupFirstSeen msgs
   \<and> uniqueMsgs [''a'', ''b'', ''a'', ''c'', ''b''] = [''a'', ''b'', ''c'']"
proof -
  have "uniqueMsgs [''a'', ''b'', ''a'', ''c'', ''b''] = [''a'', ''b'', ''c'']"
    by (simp add: uniqueMsgs_def)
  then show ?thesis
    using set_dedupFirstSeen distinct_dedupFirstSeen firstIndex_sorted
    by (simp add: uniqueMsgs_dedupFirstSeen)
qed

subsection \<open>Traces\<close>

lemmas driver_defs = trace_def outcome_def runAction_def pretest_def benchmark_def
  finalcheck_def report_def dumpFailedResult_def then_do_def Let_def

lemmas example_defs = example_env_def example_agent_def example_config_def
  pretest_failure_env_def finalcheck_failure_env_def pretest_only_env_def
  high_default_env_def
  Initialize_def applySSL_def

lemma printedOf_append: "printedOf (xs @ ys) = printedOf xs @ printedOf ys"
  by (induction xs rule: printedOf.induct) auto

lemma writtenOf_append: "writtenOf (xs @ ys) = writtenOf xs @ writtenOf ys"
  by (induction xs rule: writtenOf.induct) auto

lemma staffLogOf_append: "staffLogOf (xs @ ys) = staffLogOf xs @ staffLogOf ys"
  by (induction xs rule: staffLogOf.induct) auto

lemma printedOf_StaffLog [simp]: "printedOf (map StaffLog ls) = []"
  by (induction ls) auto

lemma writtenOf_StaffLog [simp]: "writtenOf (map StaffLog ls) = []"
  by (induction ls) auto

lemma staffLogOf_StaffLog [simp]: "staffLogOf (map StaffLog ls) = ls"
  by (induction ls) auto

lemma reads_after_Done_StaffLog [simp]:
  "reads_after_Done b (map StaffLog ls @ es) = reads_after_Done b es"
  by (induction ls) auto

lemma ResultPath_applySSL [simp]: "ResultPath (applySSL e cfg) = ResultPath cfg"
  by (simp add: applySSL_def)

text \<open>The runs of the examples, evaluated.\<close>

lemma pretest_failure_run:
  "runAction pretest_failure_env example_config =
     ([CallNewClient ''http://pipe.u.isucon.dev:8080'', CallInitialize,
       CallInitCounter, CallInitErrors, CallPretest \<lparr>ResolveAttempts = 10\<rparr>,
       Println (JsonOf \<lparr>Pass = False, Score = 0, Messages = [msg_pretest_failed],
                        Language = ''go''\<rparr>)],
      ExitError (External ''pretest failed'') 1)"
  by (simp add: driver_defs example_defs)

lemma finalcheck_failure_run:
  "runAction finalcheck_failure_env example_config =
     ([CallNewClient ''http://pipe.u.isucon.dev:8080'', CallInitialize,
       CallInitCounter, CallInitErrors, CallPretest \<lparr>ResolveAttempts = 10\<rparr>,
       CallInitCounter, CallInitErrors, CallBenchmarkerRun,
       CallDoneCounter, CallErrorsDone, CallFinalcheckScenario \<lparr>ResolveAttempts = 10\<rparr>,
       Println (JsonOf \<lparr>Pass = False, Score = 0, Messages = [], Language = ''go''\<rparr>)],
      ExitError (External ''finalcheck failed'') 1)"
  by (simp add: driver_defs example_defs)

lemma pretest_only_run:
  "runAction pretest_only_env example_config =
     ([CallNewClient ''http://pipe.u.isucon.dev:8080'', CallInitialize,
       CallInitCounter, CallInitErrors, CallPretest \<lparr>ResolveAttempts = 10\<rparr>],
      Return_nil)"
  by (simp add: driver_defs example_defs)

lemma example_run:
  "runAction example_env example_config =
     ([CallNewClient ''http://pipe.u.isucon.dev:8080'', CallInitialize,
       CallInitCounter, CallInitErrors, CallPretest \<lparr>ResolveAttempts = 10\<rparr>,
       CallInitCounter, CallInitErrors, CallBenchmarkerRun,
       CallDoneCounter, CallErrorsDone, CallFinalcheckScenario \<lparr>ResolveAttempts = 10\<rparr>,
       CallGetFinalErrorMessages, CallScenarioCounter,
       StaffLog (SucceededAndFailed ''viewer'' 5 2),
       StaffLog (FailedScenario ''viewer-fail'' 2),
       StaffLog (Executed ''streamer'' 3),
       CallGetByTag ''too-slow'', CallGetByTag ''too-many-spam'',
       CallGetByTag ''dns-resolve'', CallGetByTag ''dns-failed'', CallGetTotalProfit,
       WriteFile ''/tmp/result.json''
         \<lparr>Pass = True, Score = 1000,
          Messages = [''a'', ''b'', ''c'', msg_resolves 7, msg_profit 1000],
          Language = ''go''\<rparr>],
      Return_nil)"
  by (simp add: driver_defs example_defs uniqueMsgs_def scenarioReport_def scenarioLine_def
      HasSuffix_def)

subsection \<open>The scenario lines\<close>

lemma HasSuffix_iff: "HasSuffix s sfx \<longleftrightarrow> (\<exists>stem. s = stem @ sfx)"
proof
  assume "HasSuffix s sfx"
  then have "s = take (length s - length sfx) s @ sfx"
    unfolding HasSuffix_def by (metis append_take_drop_id)
  then show "\<exists>stem. s = stem @ sfx" ..
next
  assume "\<exists>stem. s = stem @ sfx"
  then show "HasSuffix s sfx" by (auto simp: HasSuffix_def)
qed

lemma scenarioLine_agrees_under_convention:
  assumes conv: "suffix_convention registered"
    and reg: "name \<in> set (map fst registered) \<union> set (map snd registered)"
  shows "scenarioLine c (name, count) = scenarioLineByPair registered c (name, count)"
proof (cases "HasSuffix name ''-fail''")
  case True
  have "name \<notin> set (map fst registered)"
    using conv True by (auto simp: suffix_convention_def list_all_iff)
  then have "name \<in> set (map snd registered)" using reg by auto
  then show ?thesis using True by (simp add: scenarioLine_def scenarioLineByPair_def)
next
  case False
  have nf: "name \<notin> set (map snd registered)"
    using conv False by (auto simp: suffix_convention_def list_all_iff HasSuffix_iff)
  then have "name \<in> set (map fst registered)" using reg by auto
  then obtain f where f: "map_of registered name = Some f"
    by (metis map_of_eq_None_iff not_Some_eq set_map)
  then have "(name, f) \<in> set registered" by (rule map_of_SomeD)
  then have "f = name @ ''-fail''"
    using conv by (auto simp: suffix_convention_def list_all_iff)
  then show ?thesis using False nf f
    by (simp add: scenarioLine_def scenarioLineByPair_def)
qed

lemma staffLog_of_run:
  "staffLogOf (trace e cfg) = []
   \<or> staffLogOf (trace e cfg) = scenarioReport (ScenarioCounter e)"
  by (simp add: driver_defs staffLogOf_append split: option.splits prod.splits)

text \<open>
  Claim C1, as stated, fails on the code. With the pair \<open>(stream, stream-error)\<close> registered
  and both tags counted, the report of the specification pairs the two tags, and the report
  of the code gives each of them an execution line, since neither name ends in \<^verbatim>\<open>-fail\<close>.
  With nothing registered at all, the code still pairs \<open>a\<close> with \<open>a-fail\<close>.
\<close>

theorem C1_report_by_suffix_counterexample:
  "scenarioReport [(''stream'', 5), (''stream-error'', 2)]
     \<noteq> scenarioReportByPair [(''stream'', ''stream-error'')]
          [(''stream'', 5), (''stream-error'', 2)]
   \<and> scenarioReport [(''stream'', 5), (''stream-error'', 2)]
       = [Executed ''stream'' 5, Executed ''stream-error'' 2]
   \<and> scenarioReportByPair [(''stream'', ''stream-error'')]
        [(''stream'', 5), (''stream-error'', 2)]
       = [SucceededAndFailed ''stream'' 5 2, FailedScenario ''stream-error'' 2]
   \<and> scenarioReport [(''a'', 1), (''a-fail'', 2)]
       = [SucceededAndFailed ''a'' 1 2, FailedScenario ''a-fail'' 2]
   \<and> scenarioReportByPair [] [(''a'', 1), (''a-fail'', 2)]
       = [Executed ''a'' 1, Executed ''a-fail'' 2]"
  by (simp add: scenarioReport_def scenarioLine_def scenarioReportByPair_def
      scenarioLineByPair_def HasSuffix_def)

text \<open>
  Claim C1, amended. At report time the failure counterpart of a tag is found by its name:
  an entry whose name ends in \<^verbatim>\<open>-fail\<close> gets the failure line, and any other entry is
  reported with the count stored under its name followed by \<^verbatim>\<open>-fail\<close>, when the counter
  has that key, and as a plain execution count otherwise. A run logs no scenario line, or
  these lines for the entries of the scenario counter. The line of a tag is the line of the
  explicit pairs whenever the registration follows the naming convention and the tag is
  registered.
\<close>

theorem C1_report_by_suffix:
  "((\<exists>stem. name = stem @ ''-fail'') \<longrightarrow>
       scenarioLine c (name, count) = FailedScenario name count)
   \<and> (\<not> (\<exists>stem. name = stem @ ''-fail'') \<longrightarrow>
       scenarioLine c (name, count) =
         (case map_of c (name @ ''-fail'') of
            Some failCount \<Rightarrow> SucceededAndFailed name count failCount
          | None \<Rightarrow> Executed name count))
   \<and> (staffLogOf (trace e cfg) = []
        \<or> staffLogOf (trace e cfg) = map (scenarioLine (ScenarioCounter e)) (ScenarioCounter e))
   \<and> (suffix_convention registered
        \<and> name \<in> set (map fst registered) \<union> set (map snd registered) \<longrightarrow>
       scenarioLine c (name, count) = scenarioLineByPair registered c (name, count))"
proof -
  have a: "(\<exists>stem. name = stem @ ''-fail'') \<longrightarrow>
       scenarioLine c (name, count) = FailedScenario name count"
    by (simp add: scenarioLine_def HasSuffix_iff)
  have b: "\<not> (\<exists>stem. name = stem @ ''-fail'') \<longrightarrow>
       scenarioLine c (name, count) =
         (case map_of c (name @ ''-fail'') of
            Some failCount \<Rightarrow> SucceededAndFailed name count failCount
          | None \<Rightarrow> Executed name count)"
    by (simp add: scenarioLine_def HasSuffix_iff)
  have c: "staffLogOf (trace e cfg) = []
        \<or> staffLogOf (trace e cfg) = map (scenarioLine (ScenarioCounter e)) (ScenarioCounter e)"
    using staffLog_of_run[of e cfg] by (simp add: scenarioReport_def)
  show ?thesis
    using a b c scenarioLine_agrees_under_convention by blast
qed

theorem C1_report_by_suffix_witness:
  "scenarioLine [(''viewer'', 5), (''viewer-fail'', 2)] (''viewer-fail'', 2)
     = FailedScenario ''viewer-fail'' 2
   \<and> scenarioLine [(''viewer'', 5), (''viewer-fail'', 2)] (''viewer'', 5)
     = SucceededAndFailed ''viewer'' 5 2
   \<and> suffix_convention [(''viewer'', ''viewer-fail'')]
   \<and> scenarioLine [(''viewer'', 5), (''viewer-fail'', 2)] (''viewer'', 5)
     = scenarioLineByPair [(''viewer'', ''viewer-fail'')]
         [(''viewer'', 5), (''viewer-fail'', 2)] (''viewer'', 5)"
proof -
  have h1: "\<exists>stem. ''viewer-fail'' = stem @ ''-fail''"
    by (rule exI[of _ "''viewer''"]) simp
  have h2: "\<not> (\<exists>stem. ''viewer'' = stem @ ''-fail'')"
    by (simp add: HasSuffix_iff[symmetric] HasSuffix_def)
  have h3: "suffix_convention [(''viewer'', ''viewer-fail'')]"
    by (simp add: suffix_convention_def HasSuffix_def)
  have h4: "''viewer'' \<in> set (map fst [(''viewer'', ''viewer-fail'')])
              \<union> set (map snd [(''viewer'', ''viewer-fail'')])"
    by simp
  note t1 = C1_report_by_suffix[of "''viewer-fail''" "[(''viewer'', 5), (''viewer-fail'', 2)]" 2
        example_env example_config "[(''viewer'', ''viewer-fail'')]"]
  note t2 = C1_report_by_suffix[of "''viewer''" "[(''viewer'', 5), (''viewer-fail'', 2)]" 5
        example_env example_config "[(''viewer'', ''viewer-fail'')]"]
  from t1 h1 have a: "scenarioLine [(''viewer'', 5), (''viewer-fail'', 2)] (''viewer-fail'', 2)
     = FailedScenario ''viewer-fail'' 2"
    by blast
  from t2 h2 have "scenarioLine [(''viewer'', 5), (''viewer-fail'', 2)] (''viewer'', 5)
     = (case map_of [(''viewer'', 5), (''viewer-fail'', 2)] (''viewer'' @ ''-fail'') of
          Some failCount \<Rightarrow> SucceededAndFailed ''viewer'' 5 failCount
        | None \<Rightarrow> Executed ''viewer'' 5)"
    by blast
  then have b: "scenarioLine [(''viewer'', 5), (''viewer-fail'', 2)] (''viewer'', 5)
     = SucceededAndFailed ''viewer'' 5 2"
    by simp
  from t2 h3 h4 have c: "scenarioLine [(''viewer'', 5), (''viewer-fail'', 2)] (''viewer'', 5)
     = scenarioLineByPair [(''viewer'', ''viewer-fail'')]
         [(''viewer'', 5), (''viewer-fail'', 2)] (''viewer'', 5)"
    by blast
  show ?thesis
    using a b h3 c by blast
qed

subsection \<open>The phases of a run\<close>

text \<open>
  Claim C3. If the pretest phase runs and fails, the run ends there: it returns the exit
  error of the pretest, it has printed one result, a failure with pass false and score 0,
  as its last effect, the benchmarker was never run, the total profit was never read, and
  no result was written.
\<close>

theorem C3_pretest_failure_aborts:
  assumes "Pretest_err e = Some err"
    and "CallPretest r \<in> set (trace e cfg)"
  shows "outcome e cfg = ExitError err 1
     \<and> (\<exists>p. printedOf (trace e cfg) = [p] \<and> pass_false_score_0 p
            \<and> last (trace e cfg) = Println p)
     \<and> CallBenchmarkerRun \<notin> set (trace e cfg)
     \<and> CallGetTotalProfit \<notin> set (trace e cfg)
     \<and> writtenOf (trace e cfg) = []"
  using assms
  by (auto simp: driver_defs pass_false_score_0_def split: option.splits prod.splits)

theorem C3_pretest_failure_aborts_witness:
  "Pretest_err pretest_failure_env = Some (External ''pretest failed'')
   \<and> CallPretest \<lparr>ResolveAttempts = 10\<rparr> \<in> set (trace pretest_failure_env example_config)
   \<and> outcome pretest_failure_env example_config = ExitError (External ''pretest failed'') 1
   \<and> printedOf (trace pretest_failure_env example_config)
       = [JsonOf \<lparr>Pass = False, Score = 0, Messages = [msg_pretest_failed],
                  Language = ''go''\<rparr>]
   \<and> CallBenchmarkerRun \<notin> set (trace pretest_failure_env example_config)
   \<and> CallGetTotalProfit \<notin> set (trace pretest_failure_env example_config)
   \<and> writtenOf (trace pretest_failure_env example_config) = []"
proof -
  have h1: "Pretest_err pretest_failure_env = Some (External ''pretest failed'')"
    by (simp add: pretest_failure_env_def)
  have h2: "CallPretest \<lparr>ResolveAttempts = 10\<rparr>
              \<in> set (trace pretest_failure_env example_config)"
    by (simp add: trace_def pretest_failure_run)
  have p: "printedOf (trace pretest_failure_env example_config)
       = [JsonOf \<lparr>Pass = False, Score = 0, Messages = [msg_pretest_failed],
                  Language = ''go''\<rparr>]"
    by (simp add: trace_def pretest_failure_run)
  show ?thesis
    using C3_pretest_failure_aborts[OF h1 h2] h1 h2 p by simp
qed

text \<open>
  Claim C4. If the final check runs and fails, the run ends as a failure whatever the
  benchmark scored: it returns the exit error of the final check, its last effect is a
  printed failure with pass false and score 0, every result it printed is such a failure,
  and no result record, so no record with pass true, is written.
\<close>

theorem C4_finalcheck_failure_fails_run:
  assumes "FinalcheckScenario_err e = Some err"
    and "CallFinalcheckScenario r \<in> set (trace e cfg)"
  shows "outcome e cfg = ExitError err 1
     \<and> (\<exists>p. last (trace e cfg) = Println p \<and> pass_false_score_0 p)
     \<and> list_all pass_false_score_0 (printedOf (trace e cfg))
     \<and> writtenOf (trace e cfg) = []"
  using assms
  by (auto simp: driver_defs pass_false_score_0_def printedOf_append writtenOf_append
      split: option.splits prod.splits)

theorem C4_finalcheck_failure_fails_run_witness:
  "FinalcheckScenario_err finalcheck_failure_env = Some (External ''finalcheck failed'')
   \<and> CallFinalcheckScenario \<lparr>ResolveAttempts = 10\<rparr>
        \<in> set (trace finalcheck_failure_env example_config)
   \<and> CallBenchmarkerRun \<in> set (trace finalcheck_failure_env example_config)
   \<and> 0 < sint (GetTotalProfit finalcheck_failure_env)
   \<and> outcome finalcheck_failure_env example_config
       = ExitError (External ''finalcheck failed'') 1
   \<and> last (trace finalcheck_failure_env example_config)
       = Println (JsonOf \<lparr>Pass = False, Score = 0, Messages = [], Language = ''go''\<rparr>)
   \<and> writtenOf (trace finalcheck_failure_env example_config) = []"
proof -
  have h1: "FinalcheckScenario_err finalcheck_failure_env
              = Some (External ''finalcheck failed'')"
    by (simp add: finalcheck_failure_env_def)
  have h2: "CallFinalcheckScenario \<lparr>ResolveAttempts = 10\<rparr>
              \<in> set (trace finalcheck_failure_env example_config)"
    by (simp add: trace_def finalcheck_failure_run)
  have b: "CallBenchmarkerRun \<in> set (trace finalcheck_failure_env example_config)"
    by (simp add: trace_def finalcheck_failure_run)
  have s: "0 < sint (GetTotalProfit finalcheck_failure_env)"
    by (simp add: finalcheck_failure_env_def example_env_def)
  have l: "last (trace finalcheck_failure_env example_config)
       = Println (JsonOf \<lparr>Pass = False, Score = 0, Messages = [], Language = ''go''\<rparr>)"
    by (simp add: trace_def finalcheck_failure_run)
  show ?thesis
    using C4_finalcheck_failure_fails_run[OF h1 h2] h1 h2 b s l by simp
qed

text \<open>
  Claim C5, as stated, fails on the code: a run with \<^verbatim>\<open>--pretest-only\<close> whose pretest passes
  returns \<^verbatim>\<open>nil\<close> and has neither written nor printed a result record.
\<close>

theorem C5_result_written_once_counterexample:
  "outcome pretest_only_env example_config = Return_nil
   \<and> length (writtenOf (trace pretest_only_env example_config)) = 0
   \<and> length (printedOf (trace pretest_only_env example_config)) = 0
   \<and> length (writtenOf (trace pretest_only_env example_config)) \<noteq> 1"
  by (simp add: trace_def outcome_def pretest_only_run)

text \<open>
  Claim C5, amended. The result record has the four fields pass, score, messages and
  language. It is written to the result path at most once per run, as the last effect of
  the run, with pass true, the total profit as its score and the deduplicated error
  messages followed by the two summary lines as its messages. It is written exactly once
  when a run that is not pretest-only returns without an error, and a pretest-only run
  writes no result record.
\<close>

theorem C5_result_written_at_most_once:
  "length (writtenOf (trace e cfg)) \<le> 1
   \<and> (\<forall>w \<in> set (writtenOf (trace e cfg)).
         fst w = ResultPath cfg
         \<and> Pass (snd w)
         \<and> Score (snd w) = GetTotalProfit e
         \<and> Messages (snd w) =
             uniqueMsgs (concat (map snd (GetFinalErrorMessages e)))
               @ [msg_resolves (GetByTag e (DNSResolve e)), msg_profit (GetTotalProfit e)]
         \<and> (\<exists>initializeResp. Initialize (initClient e) = (Some initializeResp, None)
               \<and> Language (snd w) = resp_Language initializeResp)
         \<and> last (trace e cfg) = WriteFile (fst w) (snd w))
   \<and> (outcome e cfg = Return_nil \<and> \<not> pretestOnly e \<longrightarrow>
         length (writtenOf (trace e cfg)) = 1)
   \<and> (pretestOnly e \<longrightarrow> writtenOf (trace e cfg) = [])"
proof -
  have a: "length (writtenOf (trace e cfg)) \<le> 1"
    by (simp add: driver_defs writtenOf_append split: option.splits prod.splits)
  have b: "\<forall>w \<in> set (writtenOf (trace e cfg)).
         fst w = ResultPath cfg
         \<and> Pass (snd w)
         \<and> Score (snd w) = GetTotalProfit e
         \<and> Messages (snd w) =
             uniqueMsgs (concat (map snd (GetFinalErrorMessages e)))
               @ [msg_resolves (GetByTag e (DNSResolve e)), msg_profit (GetTotalProfit e)]
         \<and> (\<exists>initializeResp. Initialize (initClient e) = (Some initializeResp, None)
               \<and> Language (snd w) = resp_Language initializeResp)
         \<and> last (trace e cfg) = WriteFile (fst w) (snd w)"
    by (simp add: driver_defs writtenOf_append split: option.splits prod.splits)
  have c: "outcome e cfg = Return_nil \<and> \<not> pretestOnly e \<longrightarrow>
         length (writtenOf (trace e cfg)) = 1"
    by (simp add: driver_defs writtenOf_append split: option.splits prod.splits)
  have d: "pretestOnly e \<longrightarrow> writtenOf (trace e cfg) = []"
    by (simp add: driver_defs writtenOf_append split: option.splits prod.splits)
  show ?thesis
    by (rule conjI[OF a conjI[OF b conjI[OF c d]]])
qed

theorem C5_result_written_at_most_once_witness:
  "outcome example_env example_config = Return_nil
   \<and> \<not> pretestOnly example_env
   \<and> length (writtenOf (trace example_env example_config)) = 1
   \<and> writtenOf (trace example_env example_config)
       = [(''/tmp/result.json'',
           \<lparr>Pass = True, Score = 1000,
            Messages = [''a'', ''b'', ''c'', msg_resolves 7, msg_profit 1000],
            Language = ''go''\<rparr>)]
   \<and> last (trace example_env example_config)
       = WriteFile ''/tmp/result.json''
           \<lparr>Pass = True, Score = 1000,
            Messages = [''a'', ''b'', ''c'', msg_resolves 7, msg_profit 1000],
            Language = ''go''\<rparr>"
proof -
  let ?r = "\<lparr>Pass = True, Score = 1000,
            Messages = [''a'', ''b'', ''c'', msg_resolves 7, msg_profit 1000],
            Language = ''go''\<rparr>"
  have h1: "outcome example_env example_config = Return_nil"
    by (simp add: outcome_def example_run)
  have h2: "\<not> pretestOnly example_env"
    by (simp add: example_env_def)
  have w: "writtenOf (trace example_env example_config) = [(''/tmp/result.json'', ?r)]"
    by (simp add: trace_def example_run)
  note t = C5_result_written_at_most_once[of example_env example_config]
  have n: "length (writtenOf (trace example_env example_config)) = 1"
    using t[THEN conjunct2, THEN conjunct2, THEN conjunct1] h1 h2 by (rule mp[OF _ conjI])
  have m: "(''/tmp/result.json'', ?r) \<in> set (writtenOf (trace example_env example_config))"
    unfolding w by simp
  have "last (trace example_env example_config)
          = WriteFile (fst (''/tmp/result.json'', ?r)) (snd (''/tmp/result.json'', ?r))"
    using bspec[OF t[THEN conjunct2, THEN conjunct1] m] by blast
  then have l: "last (trace example_env example_config) = WriteFile ''/tmp/result.json'' ?r"
    by (simp only: fst_conv snd_conv)
  show ?thesis
    by (rule conjI[OF h1 conjI[OF h2 conjI[OF n conjI[OF w l]]]])
qed




subsection \<open>The counters\<close>

lemma reads_after_Done_rejects:
  "\<not> reads_after_Done False [CallGetTotalProfit, CallDoneCounter]
   \<and> \<not> reads_after_Done False [CallDoneCounter, CallInitCounter, CallGetByTag tag]"
  by simp

lemma frozen_Increments:
  "frozen reg \<Longrightarrow>
     counts (reg_Increments reg incs) = counts reg
     \<and> weights (reg_Increments reg incs) = weights reg
     \<and> frozen (reg_Increments reg incs)
     \<and> anomalies (reg_Increments reg incs) = anomalies reg + length incs"
  by (induction reg incs rule: reg_Increments.induct) (auto simp: reg_Increment_def)

text \<open>
  An increment of 2 before \<^verbatim>\<open>Done()\<close> is counted; an increment of 5 after it is not,
  and is flagged.
\<close>

lemma example_registry_run:
  "reg_GetTotalProfit (reg_Increments example_registry [(''tip'', 2)]) = 20
   \<and> reg_GetTotalProfit
        (reg_Increments (reg_Done (reg_Increments example_registry [(''tip'', 2)]))
           [(''tip'', 5)]) = 20
   \<and> anomalies
        (reg_Increments (reg_Done (reg_Increments example_registry [(''tip'', 2)]))
           [(''tip'', 5)]) = 1"
  by (simp add: example_registry_def reg_Increment_def reg_Done_def reg_GetTotalProfit_def)

text \<open>
  Claim C7. In every run, each read that feeds the report (\<^verbatim>\<open>ScenarioCounter\<close>, \<^verbatim>\<open>GetByTag\<close>,
  \<^verbatim>\<open>GetTotalProfit\<close>) is made after \<^verbatim>\<open>DoneCounter\<close>, with no \<^verbatim>\<open>InitCounter\<close> in between.
  In the registry of the specification no increment is accepted after \<^verbatim>\<open>Done()\<close>: whatever
  increments follow, every count and the total profit stay as \<^verbatim>\<open>Done()\<close> left them, the
  registry stays closed, and each late increment is flagged.
\<close>

theorem C7_reads_after_Done:
  "reads_after_Done False (trace e cfg)
   \<and> reg_GetByTag (reg_Increments (reg_Done reg) incs) tag = reg_GetByTag (reg_Done reg) tag
   \<and> reg_GetTotalProfit (reg_Increments (reg_Done reg) incs) = reg_GetTotalProfit (reg_Done reg)
   \<and> frozen (reg_Increments (reg_Done reg) incs)
   \<and> anomalies (reg_Increments (reg_Done reg) incs) = anomalies reg + length incs"
proof -
  have a: "reads_after_Done False (trace e cfg)"
    by (simp add: driver_defs split: option.splits prod.splits)
  have f: "frozen (reg_Done reg)" by (simp add: reg_Done_def)
  have "anomalies (reg_Done reg) = anomalies reg" by (simp add: reg_Done_def)
  then show ?thesis
    using a frozen_Increments[OF f, of incs]
    by (simp add: reg_GetByTag_def reg_GetTotalProfit_def)
qed

subsection \<open>Initialize\<close>

text \<open>
  What the driver does with a \<^verbatim>\<open>nil\<close> response and a \<^verbatim>\<open>nil\<close> error: once the loggers and
  the client are there, it reads the language through the \<^verbatim>\<open>nil\<close> pointer and panics,
  before any phase has started.
\<close>

lemma nil_response_panics:
  assumes "InitStaffLogger_err e = None" and "InitContestantLogger_err e = None"
    and "NewClient_err e = None" and "Initialize (initClient e) = (None, None)"
  shows "outcome e cfg = Panic_nil_dereference
     \<and> trace e cfg = [CallNewClient (TargetBaseURL (applySSL e cfg)), CallInitialize]"
  using assms by (simp add: driver_defs)

text \<open>
  Claim C8. \<^verbatim>\<open>Initialize\<close> returns an error exactly when building the request fails,
  sending it fails, or the status of the response is not 200. With a response of status 200
  it returns whatever the decoder left in the pointer and no error; when the body does not
  decode and the pointer is still \<^verbatim>\<open>nil\<close>, it returns \<^verbatim>\<open>nil\<close> and no error.
\<close>

theorem C8_Initialize_errors:
  "(snd (Initialize c) \<noteq> None \<longleftrightarrow>
      NewRequest_err c \<noteq> None
      \<or> (case Do_result c of Inl err \<Rightarrow> True | Inr resp \<Rightarrow> StatusCode resp \<noteq> 200))
   \<and> (NewRequest_err c = None \<and> Do_result c = Inr resp \<and> StatusCode resp = 200 \<longrightarrow>
        Initialize c = (fst (Decode c (Body resp)), None))
   \<and> (NewRequest_err c = None \<and> Do_result c = Inr resp \<and> StatusCode resp = 200
        \<and> Decode c (Body resp) = (None, Some decodeErr) \<longrightarrow>
        Initialize c = (None, None))"
  by (auto simp: Initialize_def split: option.splits sum.splits prod.splits)

theorem C8_Initialize_errors_witness:
  "NewRequest_err undecodable_agent = None
   \<and> Do_result undecodable_agent = Inr \<lparr>StatusCode = 200, Body = ''<html>''\<rparr>
   \<and> Decode undecodable_agent ''<html>'' = (None, Some (External ''invalid character''))
   \<and> Initialize undecodable_agent = (None, None)"
proof -
  have h1: "NewRequest_err undecodable_agent = None"
    by (simp add: undecodable_agent_def)
  have h2: "Do_result undecodable_agent = Inr \<lparr>StatusCode = 200, Body = ''<html>''\<rparr>"
    by (simp add: undecodable_agent_def)
  have h3: "Decode undecodable_agent ''<html>'' = (None, Some (External ''invalid character''))"
    by (simp add: undecodable_agent_def)
  have "Initialize undecodable_agent = (None, None)"
    using C8_Initialize_errors[of undecodable_agent "\<lparr>StatusCode = 200, Body = ''<html>''\<rparr>"
        "External ''invalid character''"] h1 h2 h3
    by simp
  then show ?thesis using h1 h2 h3 by blast
qed

section \<open>Properties of the user handlers\<close>

text \<open>
  A registration under another name runs the whole handler: here it opens the transaction,
  inserts the user and the theme, runs the command that adds the DNS record, and stops at
  \<^verbatim>\<open>fillUserResponse\<close>, which fails in this example, with the transaction still open.
\<close>

lemma register_carol_run:
  "registerHandler example_handler_env carol_request_body example_response example_world =
     (Inl (HttpInternalServerErrorException ''failed to fill user''),
      \<lparr>committed = example_tables,
       in_transaction = Some (example_tables
         \<lparr>users := users example_tables @
            [\<lparr>user_id = Some 3, user_name = ''carol'', user_displayName = ''Pipe'',
              user_description = ''reserved'', user_hashedPassword = ''$2y$04$secret''\<rparr>],
          users_auto_increment := 4,
          themes := themes example_tables @ [\<lparr>theme_userId = 3, theme_darkMode = True\<rparr>]\<rparr>),
       executed_commands =
         [[''pdnsutil'', ''add-record'', ''u.isucon.dev'', ''carol'', ''A'', ''30'',
           ''127.0.0.1'']]\<rparr>)"
  by (simp add: registerHandler_def example_handler_env_def carol_request_body_def
      pipe_request_body_def
      pipe_request_def example_world_def example_tables_def beginTransaction_def
      write_tables_def current_def Let_def)

text \<open>
  Claim C9. For every registration request whose name is \<^verbatim>\<open>pipe\<close>, \<^verbatim>\<open>registerHandler\<close>
  throws the bad-request exception with the message that the name is reserved, and leaves
  the state as it found it: no transaction is opened, no user and no theme is inserted,
  and no command that adds a DNS record is run.
\<close>

theorem C9_pipe_is_reserved:
  assumes "fromJson E request_body = Some req" and "req_name req = ''pipe''"
  shows "registerHandler E request_body response w
           = (Inl (HttpBadRequestException reserved_message), w)
     \<and> in_transaction (snd (registerHandler E request_body response w)) = in_transaction w
     \<and> users (current (snd (registerHandler E request_body response w))) = users (current w)
     \<and> themes (current (snd (registerHandler E request_body response w))) = themes (current w)
     \<and> executed_commands (snd (registerHandler E request_body response w))
         = executed_commands w"
  using assms by (simp add: registerHandler_def)

theorem C9_pipe_is_reserved_witness:
  "fromJson example_handler_env pipe_request_body = Some pipe_request
   \<and> req_name pipe_request = ''pipe''
   \<and> registerHandler example_handler_env pipe_request_body example_response example_world
       = (Inl (HttpBadRequestException reserved_message), example_world)
   \<and> in_transaction (snd (registerHandler example_handler_env pipe_request_body example_response
        example_world)) = None"
proof -
  have h1: "fromJson example_handler_env pipe_request_body = Some pipe_request"
    by (simp add: example_handler_env_def)
  have h2: "req_name pipe_request = ''pipe''"
    by (simp add: pipe_request_def)
  have h3: "in_transaction example_world = None"
    by (simp add: example_world_def)
  show ?thesis
    using C9_pipe_is_reserved[OF h1 h2, of example_response example_world] h1 h2 h3
    by simp
qed

text \<open>
  Claim C10. For an existing user with no row in the table of icons, when the session
  check passes and the two queries run, \<^verbatim>\<open>getIconHandler\<close> does not answer with the
  not-found exception: it answers with the contents of the fallback image file and the
  content type \<^verbatim>\<open>image/jpeg\<close>, and when the file cannot be read, or its contents are the
  empty string or \<^verbatim>\<open>"0"\<close>, with an internal server error.
\<close>

theorem C10_fallback_icon:
  assumes "verifyUserSession E = None"
    and "in_transaction w = None"
    and "select_user_err E = None" and "select_icon_err E = None"
    and "params ''username'' = Some username"
    and "find (\<lambda>row. user_name row = username) (users (committed w)) = Some user"
    and "\<forall>row \<in> set (icons (committed w)). Some (fst row) \<noteq> user_id user"
  shows "(\<forall>m. fst (getIconHandler E params response w) \<noteq> Inl (HttpNotFoundException m))
    \<and> (FALLBACK_IMAGE E = Some img \<and> \<not> falsy img \<longrightarrow>
         fst (getIconHandler E params response w)
           = Inr (response\<lparr>body := body response @ img,
                           headers := (headers response)(''Content-Type'' \<mapsto> ''image/jpeg'')\<rparr>))
    \<and> (FALLBACK_IMAGE E = None \<or> (\<exists>s. FALLBACK_IMAGE E = Some s \<and> falsy s) \<longrightarrow>
         fst (getIconHandler E params response w)
           = Inl (HttpInternalServerErrorException ''failed to read fallback image''))"
proof -
  have noicon: "find (\<lambda>row. Some (fst row) = user_id user) (icons (committed w)) = None"
    using assms(7) by (auto simp: find_None_iff)
  show ?thesis
    using assms(1-6) noicon
    by (auto simp: getIconHandler_def beginTransaction_def current_def split: option.splits)
qed

theorem C10_fallback_icon_witness:
  "find (\<lambda>row. user_name row = ''alice'') (users (committed example_world))
     = Some \<lparr>user_id = Some 1, user_name = ''alice'', user_displayName = ''Alice'',
             user_description = ''streamer'', user_hashedPassword = ''$2y$04$a''\<rparr>
   \<and> list_all (\<lambda>row. fst row \<noteq> 1) (icons (committed example_world))
   \<and> FALLBACK_IMAGE example_handler_env = Some ''NoImage!''
   \<and> fst (getIconHandler example_handler_env [''username'' \<mapsto> ''alice''] example_response
        example_world)
       = Inr \<lparr>status = 200, headers = [''Content-Type'' \<mapsto> ''image/jpeg''],
              body = ''NoImage!''\<rparr>"
proof -
  let ?alice = "\<lparr>user_id = Some 1, user_name = ''alice'', user_displayName = ''Alice'',
             user_description = ''streamer'', user_hashedPassword = ''$2y$04$a''\<rparr>"
  have h1: "verifyUserSession example_handler_env = None"
    and h3: "select_user_err example_handler_env = None"
    and h4: "select_icon_err example_handler_env = None"
    and f: "FALLBACK_IMAGE example_handler_env = Some ''NoImage!''"
    by (simp_all add: example_handler_env_def)
  have h2: "in_transaction example_world = None"
    by (simp add: example_world_def)
  have h5: "[''username'' \<mapsto> ''alice''] ''username'' = Some ''alice''"
    by simp
  have h6: "find (\<lambda>row. user_name row = ''alice'') (users (committed example_world))
              = Some ?alice"
    by (simp add: example_world_def example_tables_def)
  have h7: "\<forall>row \<in> set (icons (committed example_world)). Some (fst row) \<noteq> user_id ?alice"
    by (simp add: example_world_def example_tables_def)
  have i: "list_all (\<lambda>row. fst row \<noteq> 1) (icons (committed example_world))"
    by (simp add: example_world_def example_tables_def)
  have nf: "\<not> falsy ''NoImage!''"
    by (simp add: falsy_def)
  have "fst (getIconHandler example_handler_env [''username'' \<mapsto> ''alice''] example_response
          example_world)
        = Inr (example_response\<lparr>body := body example_response @ ''NoImage!'',
                 headers := (headers example_response)(''Content-Type'' \<mapsto> ''image/jpeg'')\<rparr>)"
    using C10_fallback_icon[where E = example_handler_env and w = example_world
          and params = "[''username'' \<mapsto> ''alice'']" and username = "''alice''"
          and user = ?alice and img = "''NoImage!''" and response = example_response,
          OF h1 h2 h3 h4 h5 h6 h7] f nf
    by blast
  then have "fst (getIconHandler example_handler_env [''username'' \<mapsto> ''alice''] example_response
          example_world)
        = Inr \<lparr>status = 200, headers = [''Content-Type'' \<mapsto> ''image/jpeg''],
               body = ''NoImage!''\<rparr>"
    by (simp add: example_response_def)
  then show ?thesis using h6 i f by blast
qed

end
